theory Spec2Isabelle
  imports Main
begin

section \<open>Y-chromosomal microdeletion classifier (classify-Y-del.py)\<close>

text \<open>
  The classification engine of \<^verbatim>\<open>classify-Y-del.py\<close>: the marker tables, the control
  check, the basic deletion check, the extension analysis, the combined AZFbc check, the
  gr/gr check and the top-level classifier.

  A marker panel is the Python \<^verbatim>\<open>Dict[str, str]\<close>: a partial map from marker names to
  status strings; a key that is not in the map is a marker that was not tested.
  Every subscript \<^verbatim>\<open>d[k]\<close> of the source raises \<^verbatim>\<open>KeyError\<close> on a missing key, so it is a
  fallible lookup here, and every function that contains a subscript returns
  \<open>error + 'a\<close>.
\<close>

subsection \<open>Python values, errors and dictionary access\<close>

datatype error = KeyError string | TypeError

text \<open>The values stored in the extension-analysis result: strings, booleans and a nested
  dictionary (in insertion order).\<close>

datatype pyval = VStr string | VBool bool | VDict "(string \<times> pyval) list"

type_synonym panel = "string \<rightharpoonup> string"

definition bindE :: "error + 'a \<Rightarrow> ('a \<Rightarrow> error + 'b) \<Rightarrow> error + 'b" where
  "bindE r f = (case r of Inl e \<Rightarrow> Inl e | Inr v \<Rightarrow> f v)"

text \<open>\<^verbatim>\<open>d[k]\<close>.\<close>

definition getitem :: "(string \<rightharpoonup> 'v) \<Rightarrow> string \<Rightarrow> error + 'v" where
  "getitem d k = (case d k of None \<Rightarrow> Inl (KeyError k) | Some v \<Rightarrow> Inr v)"

text \<open>\<^verbatim>\<open>d.get(k, default)\<close>.\<close>

definition get_default :: "(string \<rightharpoonup> 'v) \<Rightarrow> string \<Rightarrow> 'v \<Rightarrow> 'v" where
  "get_default d k dflt = (case d k of None \<Rightarrow> dflt | Some v \<Rightarrow> v)"

text \<open>Truth value of an \<^verbatim>\<open>Optional[str]\<close>: \<^verbatim>\<open>None\<close> and the empty string are false.\<close>

fun truthy_opt :: "string option \<Rightarrow> bool" where
  "truthy_opt None = False"
| "truthy_opt (Some s) = (s \<noteq> [])"

text \<open>\<^verbatim>\<open>a or b\<close> on such values: the first operand when it is true, else the second.\<close>

definition py_or :: "string option \<Rightarrow> string option \<Rightarrow> string option" where
  "py_or a b = (if truthy_opt a then a else b)"

text \<open>Truth value of a stored value, as \<^verbatim>\<open>if v:\<close> tests it.\<close>

fun truthy :: "pyval \<Rightarrow> bool" where
  "truthy (VStr s) = (s \<noteq> [])"
| "truthy (VBool b) = b"
| "truthy (VDict d) = (d \<noteq> [])"

text \<open>A value interpolated into an f-string. Only strings and booleans are interpolated by
  the source; a dictionary there is reported as an error rather than rendered.\<close>

fun format_val :: "pyval \<Rightarrow> error + string" where
  "format_val (VStr s) = Inr s"
| "format_val (VBool b) = Inr (if b then ''True'' else ''False'')"
| "format_val (VDict d) = Inl TypeError"

text \<open>\<^verbatim>\<open>d[k] = v\<close> on a dictionary kept in insertion order.\<close>

fun setitem :: "(string \<times> 'v) list \<Rightarrow> string \<Rightarrow> 'v \<Rightarrow> (string \<times> 'v) list" where
  "setitem [] k v = [(k, v)]"
| "setitem ((k', v') # d) k v = (if k' = k then (k, v) # d else (k', v') # setitem d k v)"

text \<open>\<^verbatim>\<open>d[k1][k2] = v\<close>: the subscript \<^verbatim>\<open>d[k1]\<close> may fail, and must give a dictionary.\<close>

definition setitem2 ::
  "(string \<times> pyval) list \<Rightarrow> string \<Rightarrow> string \<Rightarrow> pyval \<Rightarrow> error + (string \<times> pyval) list" where
  "setitem2 d k1 k2 v =
     bindE (getitem (map_of d) k1) (\<lambda>inner.
       case inner of
         VDict i \<Rightarrow> Inr (setitem d k1 (VDict (setitem i k2 v)))
       | _ \<Rightarrow> Inl TypeError)"

text \<open>\<^verbatim>\<open>d[k1][k2]\<close>.\<close>

definition getitem2 :: "(string \<times> pyval) list \<Rightarrow> string \<Rightarrow> string \<Rightarrow> error + pyval" where
  "getitem2 d k1 k2 =
     bindE (getitem (map_of d) k1) (\<lambda>inner.
       case inner of
         VDict i \<Rightarrow> getitem (map_of i) k2
       | _ \<Rightarrow> Inl TypeError)"

text \<open>\<^verbatim>\<open>sep.join(xs)\<close>.\<close>

fun join :: "string \<Rightarrow> string list \<Rightarrow> string" where
  "join sep [] = []"
| "join sep [x] = x"
| "join sep (x # y # ys) = x @ sep @ join sep (y # ys)"

subsection \<open>Marker tables\<close>

definition BASIC_MARKERS :: "(string \<times> string list) list" where
  "BASIC_MARKERS =
     [(''AZFa'', [''sY84'', ''sY86'']),
      (''AZFb'', [''sY127'', ''sY134'']),
      (''AZFc'', [''sY254'', ''sY255''])]"

definition EXPECTED_PRESENT_MARKERS :: "string list" where
  "EXPECTED_PRESENT_MARKERS =
     [''sY14'', ''sY82'', ''sY88'', ''sY105'', ''sY153'', ''sY160'', ''sY1191'', ''ZFX/ZFY'']"

subsection \<open>Control markers\<close>

definition check_control_markers :: "panel \<Rightarrow> bool \<times> string" where
  "check_control_markers markers =
     (let zfxy_status = py_or (markers ''ZFX/ZFY'') (markers ''ZFX/Y'') in
      if \<not> truthy_opt zfxy_status then
        (False, ''CRITICAL: ZFX/ZFY control marker not tested - cannot validate results'')
      else if zfxy_status \<noteq> Some ''present'' then
        (False, ''CRITICAL: ZFX/ZFY control marker absent - technical failure or sample issue'')
      else if markers ''sY14'' = None then
        (False, ''CRITICAL: sY14 (SRY) marker not tested - cannot determine sex chromosome status'')
      else (True, ''Control markers valid''))"

subsection \<open>Basic deletion check\<close>

text \<open>The \<^verbatim>\<open>for marker in region_markers\<close> loop, with its two early returns.\<close>

fun basic_loop :: "panel \<Rightarrow> string list \<Rightarrow> error + bool" where
  "basic_loop markers [] = Inr True"
| "basic_loop markers (marker # rest) =
     (if markers marker = None then Inr False
      else bindE (getitem markers marker) (\<lambda>status.
        if status \<noteq> ''absent'' then Inr False
        else basic_loop markers rest))"

definition check_basic_deletion :: "panel \<Rightarrow> string \<Rightarrow> error + bool" where
  "check_basic_deletion markers region =
     (if map_of BASIC_MARKERS region = None then Inr False
      else bindE (getitem (map_of BASIC_MARKERS) region) (\<lambda>region_markers.
        basic_loop markers region_markers))"

subsection \<open>Extension analysis\<close>

text \<open>The dictionary \<^verbatim>\<open>{'complete': False, 'subtype': 'unknown', 'details': {}}\<close>.\<close>

definition initial_result :: "(string \<times> pyval) list" where
  "initial_result =
     [(''complete'', VBool False), (''subtype'', VStr ''unknown''), (''details'', VDict [])]"

text \<open>The three branches on \<^verbatim>\<open>region\<close>, each starting from \<^verbatim>\<open>result\<close>.\<close>

definition extension_azfa :: "panel \<Rightarrow> (string \<times> pyval) list \<Rightarrow> error + (string \<times> pyval) list" where
  "extension_azfa markers result =
     bindE (if markers ''sY82'' = Some ''present'' \<and> markers ''sY1064'' = Some ''absent''
            then setitem2 result ''details'' ''proximal'' (VStr ''correct'')
            else setitem2 result ''details'' ''proximal'' (VStr ''atypical'')) (\<lambda>result.
     let distal_absent = (markers ''sY1065'' = Some ''absent'' \<or> markers ''sY1182'' = Some ''absent'') in
     bindE (if markers ''sY88'' = Some ''present'' \<and> distal_absent
            then setitem2 result ''details'' ''distal'' (VStr ''correct'')
            else setitem2 result ''details'' ''distal'' (VStr ''atypical'')) (\<lambda>result.
     bindE (getitem2 result ''details'' ''proximal'') (\<lambda>proximal.
     bindE (if proximal = VStr ''correct''
            then bindE (getitem2 result ''details'' ''distal'') (\<lambda>distal. Inr (distal = VStr ''correct''))
            else Inr False) (\<lambda>both_correct.
     if both_correct
     then Inr (setitem (setitem result ''complete'' (VBool True)) ''subtype'' (VStr ''complete''))
     else Inr (setitem result ''subtype'' (VStr ''partial_or_atypical''))))))"

definition extension_azfb :: "panel \<Rightarrow> (string \<times> pyval) list \<Rightarrow> error + (string \<times> pyval) list" where
  "extension_azfb markers result =
     (let has_sY1192 = (markers ''sY1192'' = Some ''present'') in
      bindE (if markers ''sY105'' = Some ''present'' \<and> markers ''sY121'' = Some ''absent'' \<and>
                markers ''sY1192'' = Some ''absent'' \<and> markers ''sY153'' = Some ''present''
             then setitem2 (setitem (setitem result ''complete'' (VBool True))
                              ''subtype'' (VStr ''P5/proximal_P1''))
                    ''details'' ''TESE_prognosis'' (VStr ''virtually_impossible'')
             else if has_sY1192
             then bindE (setitem2 (setitem (setitem result ''complete'' (VBool False))
                                     ''subtype'' (VStr ''partial''))
                           ''details'' ''sY1192'' (VStr ''present'')) (\<lambda>result.
                    setitem2 result ''details'' ''TESE_prognosis'' (VStr ''possible''))
             else Inr (setitem result ''subtype'' (VStr ''atypical''))) (\<lambda>result.
      setitem2 result ''details'' ''sY1224'' (VStr (get_default markers ''sY1224'' ''not_tested''))))"

definition extension_azfc :: "panel \<Rightarrow> (string \<times> pyval) list \<Rightarrow> error + (string \<times> pyval) list" where
  "extension_azfc markers result =
     (if markers ''sY160'' = None
      then Inr (setitem result ''subtype'' (VStr ''unknown_terminal_status''))
      else bindE (getitem markers ''sY160'') (\<lambda>sY160.
        if sY160 = ''present''
        then bindE (setitem2 (setitem (setitem result ''complete'' (VBool True))
                                ''subtype'' (VStr ''b2/b4''))
                      ''details'' ''terminal'' (VBool False)) (\<lambda>result.
               setitem2 result ''details'' ''TESE_prognosis'' (VStr ''approximately_50_percent''))
        else bindE (setitem2 (setitem (setitem result ''complete'' (VBool True))
                                ''subtype'' (VStr ''terminal''))
                      ''details'' ''terminal'' (VBool True)) (\<lambda>result.
               setitem2 result ''details'' ''karyotype_recommended'' (VBool True))))"

definition check_extension_markers :: "panel \<Rightarrow> string \<Rightarrow> error + (string \<times> pyval) list" where
  "check_extension_markers markers region =
     (let result = initial_result in
      if region = ''AZFa'' then extension_azfa markers result
      else if region = ''AZFb'' then extension_azfb markers result
      else if region = ''AZFc'' then extension_azfc markers result
      else Inr result)"

subsection \<open>Combined AZFbc deletion and gr/gr deletion\<close>

text \<open>The loop over \<^verbatim>\<open>required_absent\<close>: \<open>False\<close> is its early return.\<close>

fun azfbc_loop :: "panel \<Rightarrow> string list \<Rightarrow> error + bool" where
  "azfbc_loop markers [] = Inr True"
| "azfbc_loop markers (marker # rest) =
     (if markers marker = None then Inr False
      else bindE (getitem markers marker) (\<lambda>status.
        if status \<noteq> ''absent'' then Inr False
        else azfbc_loop markers rest))"

definition check_azfbc_deletion :: "panel \<Rightarrow> error + (bool \<times> string)" where
  "check_azfbc_deletion markers =
     (let required_absent = [''sY127'', ''sY134'', ''sY254'', ''sY255''] in
      bindE (azfbc_loop markers required_absent) (\<lambda>all_absent.
      if \<not> all_absent then Inr (False, [])
      else
        bindE (if markers ''sY116'' \<noteq> None
               then bindE (getitem markers ''sY116'') (\<lambda>sY116.
                      if sY116 = ''absent''
                      then Inr (''P5/distal_P1'', ''virtually_impossible'')
                      else Inr (''P4/distal_P1'', ''may_be_positive''))
               else Inr (''undetermined_P4_P5'', ''unknown'')) (\<lambda>(subtype, tese).
        bindE (if markers ''sY160'' \<noteq> None
               then bindE (getitem markers ''sY160'') (\<lambda>sY160.
                      if sY160 = ''absent'' then Inr ''_TERMINAL'' else Inr [])
               else Inr []) (\<lambda>terminal.
        Inr (True, ''COMPLETE_AZFBC_DELETION_'' @ subtype @ terminal @ '' (TESE: '' @ tese @ '')'')))))"

definition check_grgr_deletion :: "panel \<Rightarrow> bool" where
  "check_grgr_deletion markers =
     (markers ''sY1291'' = Some ''absent'' \<and> markers ''sY1191'' = Some ''present'')"

subsection \<open>Top-level classifier\<close>

text \<open>\<^verbatim>\<open>d.get(k, d.get(k'))\<close>: the status under \<^verbatim>\<open>k\<close> when that key is there, else the
  (optional) status under \<^verbatim>\<open>k'\<close>.\<close>

definition get_or :: "(string \<rightharpoonup> 'v) \<Rightarrow> string \<Rightarrow> 'v option \<Rightarrow> 'v option" where
  "get_or d k dflt = (case d k of None \<Rightarrow> dflt | Some v \<Rightarrow> Some v)"

text \<open>The 46,XX male test: \<^verbatim>\<open>all(markers.get(m) == 'absent' for m in [...] if m in markers)\<close>
  under the guard on sY14 and the control marker.\<close>

definition y_markers_absent :: "panel \<Rightarrow> bool" where
  "y_markers_absent markers =
     list_all (\<lambda>m. markers m = Some ''absent'')
       (filter (\<lambda>m. markers m \<noteq> None)
          [''sY84'', ''sY86'', ''sY127'', ''sY134'', ''sY254'', ''sY255''])"

definition xx_male :: "panel \<Rightarrow> bool" where
  "xx_male markers =
     (if markers ''sY14'' = Some ''absent'' \<and>
         get_or markers ''ZFX/ZFY'' (markers ''ZFX/Y'') = Some ''present''
      then y_markers_absent markers
      else False)"

text \<open>The check for methodological errors: both subscripts are guarded by the
  membership tests.\<close>

definition discordant :: "panel \<Rightarrow> error + bool" where
  "discordant markers =
     (if markers ''sY254'' \<noteq> None \<and> markers ''sY255'' \<noteq> None
      then bindE (getitem markers ''sY254'') (\<lambda>sY254.
           bindE (getitem markers ''sY255'') (\<lambda>sY255.
           Inr (sY254 \<noteq> sY255)))
      else Inr False)"

text \<open>The loop that collects \<^verbatim>\<open>missing_expected\<close>.\<close>

fun missing_loop :: "panel \<Rightarrow> string list \<Rightarrow> string list \<Rightarrow> error + string list" where
  "missing_loop markers [] missing_expected = Inr missing_expected"
| "missing_loop markers (marker # rest) missing_expected =
     (if markers marker \<noteq> None
      then bindE (getitem markers marker) (\<lambda>status.
             if status \<noteq> ''present''
             then missing_loop markers rest (missing_expected @ [marker])
             else missing_loop markers rest missing_expected)
      else missing_loop markers rest missing_expected)"

text \<open>Step 3 from the single-region branches on (source lines 323 to 371): reached when
  neither the AZFabc nor the AZFbc branch has returned.\<close>

definition classify_single :: "panel \<Rightarrow> bool \<Rightarrow> bool \<Rightarrow> bool \<Rightarrow> error + string" where
  "classify_single markers azfa_deleted azfb_deleted azfc_deleted =
     (if azfa_deleted \<and> \<not> azfb_deleted \<and> \<not> azfc_deleted then
        bindE (check_extension_markers markers ''AZFa'') (\<lambda>ext_result.
        bindE (getitem (map_of ext_result) ''complete'') (\<lambda>complete.
        if truthy complete
        then Inr ''COMPLETE_AZFA_DELETION (TESE: virtually_impossible)''
        else bindE (getitem (map_of ext_result) ''subtype'') (\<lambda>subtype.
             bindE (format_val subtype) (\<lambda>s.
             Inr (''PARTIAL_OR_ATYPICAL_AZFA_DELETION ('' @ s @ '')'')))))
      else if azfb_deleted \<and> \<not> azfa_deleted \<and> \<not> azfc_deleted then
        bindE (check_extension_markers markers ''AZFb'') (\<lambda>ext_result.
        bindE (getitem (map_of ext_result) ''subtype'') (\<lambda>subtype.
        if subtype = VStr ''P5/proximal_P1''
        then bindE (getitem2 ext_result ''details'' ''TESE_prognosis'') (\<lambda>tese.
             bindE (format_val tese) (\<lambda>s.
             Inr (''COMPLETE_AZFB_DELETION_P5/PROXIMAL_P1 (TESE: '' @ s @ '')'')))
        else bindE (getitem (map_of ext_result) ''subtype'') (\<lambda>subtype.
             if subtype = VStr ''partial''
             then bindE (getitem2 ext_result ''details'' ''TESE_prognosis'') (\<lambda>tese.
                  bindE (format_val tese) (\<lambda>s.
                  Inr (''PARTIAL_AZFB_DELETION (sY1192 present, TESE: '' @ s @ '')'')))
             else Inr ''AZFB_DELETION_ATYPICAL_PATTERN'')))
      else if azfc_deleted \<and> \<not> azfa_deleted \<and> \<not> azfb_deleted then
        bindE (check_extension_markers markers ''AZFc'') (\<lambda>ext_result.
        bindE (getitem (map_of ext_result) ''subtype'') (\<lambda>subtype.
        if subtype = VStr ''b2/b4''
        then bindE (getitem2 ext_result ''details'' ''TESE_prognosis'') (\<lambda>tese.
             bindE (format_val tese) (\<lambda>s.
             Inr (''COMPLETE_AZFC_DELETION_B2/B4 (TESE: '' @ s @ '')'')))
        else bindE (getitem (map_of ext_result) ''subtype'') (\<lambda>subtype.
             if subtype = VStr ''terminal''
             then Inr ''TERMINAL_AZFC_DELETION (karyotype analysis recommended)''
             else Inr ''AZFC_DELETION_UNDETERMINED_TYPE (sY160 not tested)'')))
      else if check_grgr_deletion markers then
        (if \<not> (azfa_deleted \<or> azfb_deleted \<or> azfc_deleted)
         then Inr ''PARTIAL_AZFC_GR/GR_DELETION (population-specific risk factor)''
         else Inr ''MULTIPLE_DELETIONS_INCLUDING_GR/GR'')
      else if \<not> (azfa_deleted \<or> azfb_deleted \<or> azfc_deleted) then
        bindE (missing_loop markers EXPECTED_PRESENT_MARKERS []) (\<lambda>missing_expected.
        if missing_expected \<noteq> []
        then Inr (''INCONSISTENT_DATA: Expected present markers are absent: '' @
                  join '', '' missing_expected)
        else Inr ''NO_DELETION_DETECTED'')
      else Inr ''UNCLASSIFIED_DELETION_PATTERN (manual review required)'')"

text \<open>Step 3 from the start (source lines 308 to 321), then \<open>classify_single\<close>.\<close>

definition classify_patterns :: "panel \<Rightarrow> bool \<Rightarrow> bool \<Rightarrow> bool \<Rightarrow> error + string" where
  "classify_patterns markers azfa_deleted azfb_deleted azfc_deleted =
     (if azfa_deleted \<and> azfb_deleted \<and> azfc_deleted then
        (if markers ''sY14'' = Some ''absent''
         then Inr ''AZFABC_DELETION_WITH_46,XX_MALE_OR_Y_CHROMOSOME_ABSENCE''
         else Inr ''COMPLETE_AZFABC_DELETION'')
      else if azfb_deleted \<and> azfc_deleted \<and> \<not> azfa_deleted then
        bindE (check_azfbc_deletion markers) (\<lambda>(is_azfbc, azfbc_msg).
        if is_azfbc then Inr azfbc_msg
        else classify_single markers azfa_deleted azfb_deleted azfc_deleted)
      else classify_single markers azfa_deleted azfb_deleted azfc_deleted)"

definition classify_y_chromosome_state :: "panel \<Rightarrow> error + string" where
  "classify_y_chromosome_state markers =
     (let (control_valid, control_msg) = check_control_markers markers in
      if \<not> control_valid then Inr control_msg
      else if xx_male markers then Inr ''46,XX_MALE_OR_COMPLETE_Y_CHROMOSOME_ABSENCE''
      else
        bindE (check_basic_deletion markers ''AZFa'') (\<lambda>azfa_deleted.
        bindE (check_basic_deletion markers ''AZFb'') (\<lambda>azfb_deleted.
        bindE (check_basic_deletion markers ''AZFc'') (\<lambda>azfc_deleted.
        bindE (discordant markers) (\<lambda>is_discordant.
        if is_discordant
        then Inr ''METHODOLOGICAL_ERROR: sY254 and sY255 results discordant (both should have same status)''
        else classify_patterns markers azfa_deleted azfb_deleted azfc_deleted)))))"

subsection \<open>Substring test and the panels of the scenarios\<close>

text \<open>\<^verbatim>\<open>sub in s\<close> on strings, as the report generator tests classification labels.\<close>

fun startswith :: "string \<Rightarrow> string \<Rightarrow> bool" where
  "startswith s [] = True"
| "startswith [] (p # ps) = False"
| "startswith (c # s) (p # ps) = (c = p \<and> startswith s ps)"

fun str_contains :: "string \<Rightarrow> string \<Rightarrow> bool" where
  "str_contains [] sub = (sub = [])"
| "str_contains (c # s) sub = (startswith (c # s) sub \<or> str_contains s sub)"

definition panel_empty :: panel where
  "panel_empty = Map.empty"

definition panel_azfa :: panel where
  "panel_azfa = map_of
     [(''ZFX/ZFY'', ''present''), (''sY14'', ''present''), (''sY84'', ''absent''),
      (''sY86'', ''absent''), (''sY82'', ''present''), (''sY1064'', ''absent''),
      (''sY88'', ''present''), (''sY1065'', ''absent'')]"

definition panel_all_present :: panel where
  "panel_all_present = map_of
     [(''ZFX/ZFY'', ''present''), (''sY14'', ''present''), (''sY160'', ''present''),
      (''sY84'', ''present''), (''sY86'', ''present''), (''sY127'', ''present''),
      (''sY134'', ''present''), (''sY254'', ''present''), (''sY255'', ''present'')]"

definition panel_azfc :: panel where
  "panel_azfc = map_of
     [(''ZFX/ZFY'', ''present''), (''sY14'', ''present''), (''sY160'', ''present''),
      (''sY84'', ''present''), (''sY86'', ''present''), (''sY127'', ''present''),
      (''sY134'', ''present''), (''sY254'', ''absent''), (''sY255'', ''absent'')]"

definition panel_xx :: panel where
  "panel_xx = map_of [(''ZFX/ZFY'', ''present''), (''sY14'', ''absent'')]"

definition panel_discordant_no_control :: panel where
  "panel_discordant_no_control = map_of [(''sY254'', ''absent''), (''sY255'', ''present'')]"

definition panel_discordant :: panel where
  "panel_discordant = map_of
     [(''ZFX/ZFY'', ''present''), (''sY14'', ''present''),
      (''sY254'', ''absent''), (''sY255'', ''present'')]"

definition panel_azfbc :: panel where
  "panel_azfbc = map_of
     [(''ZFX/ZFY'', ''present''), (''sY14'', ''present''), (''sY160'', ''absent''),
      (''sY127'', ''absent''), (''sY134'', ''absent''),
      (''sY254'', ''absent''), (''sY255'', ''absent'')]"

subsection \<open>Renaming the control marker to its alias\<close>

text \<open>The panel in which the entry under the key \<^verbatim>\<open>ZFX/ZFY\<close> is keyed \<^verbatim>\<open>ZFX/Y\<close> instead,
  all other entries unchanged.\<close>

definition rename_alias :: "panel \<Rightarrow> panel" where
  "rename_alias markers = markers(''ZFX/ZFY'' := None, ''ZFX/Y'' := markers ''ZFX/ZFY'')"

section \<open>Properties\<close>

subsection \<open>The helper functions in closed form\<close>

lemma bindE_Inr [simp]: "bindE (Inr v) f = f v"
  by (simp add: bindE_def)

lemma bindE_Inl [simp]: "bindE (Inl e) f = Inl e"
  by (simp add: bindE_def)

lemma getitem_Some [simp]: "d k = Some v \<Longrightarrow> getitem d k = Inr v"
  by (simp add: getitem_def)

lemma getitem_None [simp]: "d k = None \<Longrightarrow> getitem d k = Inl (KeyError k)"
  by (simp add: getitem_def)

lemma basic_loop_eq:
  "basic_loop markers ks = Inr (list_all (\<lambda>k. markers k = Some ''absent'') ks)"
  by (induction ks) auto

lemma check_basic_deletion_AZFa:
  "check_basic_deletion markers ''AZFa'' =
     Inr (markers ''sY84'' = Some ''absent'' \<and> markers ''sY86'' = Some ''absent'')"
  by (simp add: check_basic_deletion_def BASIC_MARKERS_def basic_loop_eq)

lemma check_basic_deletion_AZFb:
  "check_basic_deletion markers ''AZFb'' =
     Inr (markers ''sY127'' = Some ''absent'' \<and> markers ''sY134'' = Some ''absent'')"
  by (simp add: check_basic_deletion_def BASIC_MARKERS_def basic_loop_eq)

lemma check_basic_deletion_AZFc:
  "check_basic_deletion markers ''AZFc'' =
     Inr (markers ''sY254'' = Some ''absent'' \<and> markers ''sY255'' = Some ''absent'')"
  by (simp add: check_basic_deletion_def BASIC_MARKERS_def basic_loop_eq)

lemma azfbc_loop_eq:
  "azfbc_loop markers ks = Inr (list_all (\<lambda>k. markers k = Some ''absent'') ks)"
  by (induction ks) auto

lemma missing_loop_eq:
  "missing_loop markers ks acc =
     Inr (acc @ filter (\<lambda>k. markers k \<noteq> None \<and> markers k \<noteq> Some ''present'') ks)"
  by (induction ks arbitrary: acc) auto

lemma discordant_eq:
  "discordant markers =
     Inr (markers ''sY254'' \<noteq> None \<and> markers ''sY255'' \<noteq> None \<and>
          markers ''sY254'' \<noteq> markers ''sY255'')"
  by (auto simp: discordant_def)

lemma check_azfbc_deletion_total:
  "\<exists>msg. check_azfbc_deletion markers =
     Inr (list_all (\<lambda>k. markers k = Some ''absent'') [''sY127'', ''sY134'', ''sY254'', ''sY255''],
          msg)"
  by (auto simp: check_azfbc_deletion_def azfbc_loop_eq)

lemma extension_AZFa:
  "check_extension_markers markers ''AZFa'' =
     (let proximal = (if markers ''sY82'' = Some ''present'' \<and> markers ''sY1064'' = Some ''absent''
                      then ''correct'' else ''atypical'');
          distal = (if markers ''sY88'' = Some ''present'' \<and>
                       (markers ''sY1065'' = Some ''absent'' \<or> markers ''sY1182'' = Some ''absent'')
                    then ''correct'' else ''atypical'');
          details = VDict [(''proximal'', VStr proximal), (''distal'', VStr distal)]
      in if proximal = ''correct'' \<and> distal = ''correct''
         then Inr [(''complete'', VBool True), (''subtype'', VStr ''complete''), (''details'', details)]
         else Inr [(''complete'', VBool False), (''subtype'', VStr ''partial_or_atypical''),
                   (''details'', details)])"
  by (auto simp add: check_extension_markers_def extension_azfa_def initial_result_def
        setitem2_def getitem2_def Let_def)

lemma extension_AZFb:
  "check_extension_markers markers ''AZFb'' =
     (let sY1224 = (''sY1224'', VStr (get_default markers ''sY1224'' ''not_tested'')) in
      if markers ''sY105'' = Some ''present'' \<and> markers ''sY121'' = Some ''absent'' \<and>
         markers ''sY1192'' = Some ''absent'' \<and> markers ''sY153'' = Some ''present''
      then Inr [(''complete'', VBool True), (''subtype'', VStr ''P5/proximal_P1''),
                (''details'', VDict [(''TESE_prognosis'', VStr ''virtually_impossible''), sY1224])]
      else if markers ''sY1192'' = Some ''present''
      then Inr [(''complete'', VBool False), (''subtype'', VStr ''partial''),
                (''details'', VDict [(''sY1192'', VStr ''present''),
                                     (''TESE_prognosis'', VStr ''possible''), sY1224])]
      else Inr [(''complete'', VBool False), (''subtype'', VStr ''atypical''),
                (''details'', VDict [sY1224])])"
  by (auto simp add: check_extension_markers_def extension_azfb_def initial_result_def
        setitem2_def getitem2_def Let_def)

lemma extension_AZFc:
  "check_extension_markers markers ''AZFc'' =
     (if markers ''sY160'' = None
      then Inr [(''complete'', VBool False), (''subtype'', VStr ''unknown_terminal_status''),
                (''details'', VDict [])]
      else if markers ''sY160'' = Some ''present''
      then Inr [(''complete'', VBool True), (''subtype'', VStr ''b2/b4''),
                (''details'', VDict [(''terminal'', VBool False),
                                     (''TESE_prognosis'', VStr ''approximately_50_percent'')])]
      else Inr [(''complete'', VBool True), (''subtype'', VStr ''terminal''),
                (''details'', VDict [(''terminal'', VBool True),
                                     (''karyotype_recommended'', VBool True)])])"
  by (auto simp add: check_extension_markers_def extension_azfc_def initial_result_def
        setitem2_def getitem2_def Let_def)

lemma classify_single_total:
  "\<exists>label. classify_single markers a b c = Inr label"
  by (cases "markers ''sY160'' = None")
     (auto simp: classify_single_def extension_AZFa extension_AZFb extension_AZFc Let_def
        getitem2_def missing_loop_eq)

lemma classify_patterns_total:
  "\<exists>label. classify_patterns markers a b c = Inr label"
proof -
  obtain msg b' where "check_azfbc_deletion markers = Inr (b', msg)"
    using check_azfbc_deletion_total [of markers] by blast
  then show ?thesis
    using classify_single_total [of markers a b c]
    by (auto simp: classify_patterns_def)
qed

lemmas classify_defs =
  classify_y_chromosome_state_def check_control_markers_def py_or_def xx_male_def
  y_markers_absent_def get_or_def check_basic_deletion_AZFa check_basic_deletion_AZFb
  check_basic_deletion_AZFc discordant_eq classify_patterns_def classify_single_def
  extension_AZFa extension_AZFb extension_AZFc getitem2_def check_grgr_deletion_def
  missing_loop_eq EXPECTED_PRESENT_MARKERS_def check_azfbc_deletion_def azfbc_loop_eq Let_def

subsection \<open>Totality\<close>

text \<open>
  C1. The classifier returns a label for every marker panel and never raises: every
  subscript of the source, on the panel, on the marker tables and on the
  extension-analysis result (such as the one that reads the TESE prognosis out of the
  details), finds its key.
\<close>

theorem classify_total:
  "\<exists>label. classify_y_chromosome_state markers = Inr label"
  using classify_patterns_total
  by (auto simp: classify_y_chromosome_state_def check_basic_deletion_AZFa
      check_basic_deletion_AZFb check_basic_deletion_AZFc discordant_eq split: prod.splits)

subsection \<open>Control gate\<close>

text \<open>
  C3. A panel with neither the key ZFX/ZFY nor the key ZFX/Y is classified as
  "control marker not tested", whatever else it holds; the empty panel is one.
\<close>

theorem classify_no_control:
  "markers ''ZFX/ZFY'' = None \<Longrightarrow> markers ''ZFX/Y'' = None \<Longrightarrow>
   classify_y_chromosome_state markers =
     Inr ''CRITICAL: ZFX/ZFY control marker not tested - cannot validate results''"
  by (simp add: classify_y_chromosome_state_def check_control_markers_def py_or_def)

theorem classify_no_control_witness:
  "panel_empty ''ZFX/ZFY'' = None \<and> panel_empty ''ZFX/Y'' = None \<and>
   classify_y_chromosome_state panel_empty =
     Inr ''CRITICAL: ZFX/ZFY control marker not tested - cannot validate results''"
  using classify_no_control [of panel_empty] by (simp add: panel_empty_def)

subsection \<open>Basic deletion\<close>

text \<open>
  C4. For each of the regions AZFa, AZFb and AZFc the table gives two basic markers, and
  the basic deletion check is true exactly when both are keys of the panel with status
  absent; when either is missing from the panel the check is false.
\<close>

theorem check_basic_deletion_iff:
  "region \<in> {''AZFa'', ''AZFb'', ''AZFc''} \<Longrightarrow>
   \<exists>k1 k2. map_of BASIC_MARKERS region = Some [k1, k2] \<and>
     check_basic_deletion markers region =
       Inr (markers k1 = Some ''absent'' \<and> markers k2 = Some ''absent'') \<and>
     (markers k1 = None \<or> markers k2 = None \<longrightarrow>
        check_basic_deletion markers region = Inr False)"
  by (auto simp: check_basic_deletion_def BASIC_MARKERS_def basic_loop_eq)

theorem check_basic_deletion_iff_witness:
  "''AZFb'' \<in> {''AZFa'', ''AZFb'', ''AZFc''} \<and>
   (\<exists>k1 k2. map_of BASIC_MARKERS ''AZFb'' = Some [k1, k2] \<and>
     check_basic_deletion panel_azfbc ''AZFb'' =
       Inr (panel_azfbc k1 = Some ''absent'' \<and> panel_azfbc k2 = Some ''absent'') \<and>
     (panel_azfbc k1 = None \<or> panel_azfbc k2 = None \<longrightarrow>
        check_basic_deletion panel_azfbc ''AZFb'' = Inr False))"
  using check_basic_deletion_iff [of "''AZFb''" panel_azfbc] by simp

subsection \<open>Scenarios\<close>

text \<open>
  C6. The panel ZFX/ZFY present, sY14 present, sY84 absent, sY86 absent, sY82 present,
  sY1064 absent, sY88 present, sY1065 absent is classified as a complete AZFa deletion.
\<close>

theorem classify_panel_azfa:
  "classify_y_chromosome_state panel_azfa =
     Inr ''COMPLETE_AZFA_DELETION (TESE: virtually_impossible)''"
  by (simp add: panel_azfa_def classify_defs)

text \<open>
  C9. The panel with exactly ZFX/ZFY present and sY14 absent is classified as a 46,XX male
  or complete absence of the Y chromosome: none of the six basic markers is tested, so all
  that are tested are absent.
\<close>

theorem classify_panel_xx:
  "classify_y_chromosome_state panel_xx = Inr ''46,XX_MALE_OR_COMPLETE_Y_CHROMOSOME_ABSENCE''"
  by (simp add: panel_xx_def classify_defs)

subsection \<open>Discordant sY254 and sY255\<close>

text \<open>
  C2 as stated fails: a panel whose sY254 and sY255 differ but which has no control marker
  is stopped by the control check, which runs first.
\<close>

theorem classify_discordant_no_control:
  "panel_discordant_no_control ''sY254'' = Some ''absent'' \<and>
   panel_discordant_no_control ''sY255'' = Some ''present'' \<and>
   classify_y_chromosome_state panel_discordant_no_control =
     Inr ''CRITICAL: ZFX/ZFY control marker not tested - cannot validate results'' \<and>
   classify_y_chromosome_state panel_discordant_no_control \<noteq>
     Inr ''METHODOLOGICAL_ERROR: sY254 and sY255 results discordant (both should have same status)''"
  by (simp add: panel_discordant_no_control_def classify_defs)

text \<open>
  C2, amended. For every panel that passes the control check and has both sY254 and sY255
  as keys with differing statuses, the classifier returns the methodological-error label,
  whatever the other markers are.
\<close>

theorem classify_discordant:
  "fst (check_control_markers markers) \<Longrightarrow>
   markers ''sY254'' = Some s254 \<Longrightarrow> markers ''sY255'' = Some s255 \<Longrightarrow> s254 \<noteq> s255 \<Longrightarrow>
   classify_y_chromosome_state markers =
     Inr ''METHODOLOGICAL_ERROR: sY254 and sY255 results discordant (both should have same status)''"
  by (auto simp: classify_y_chromosome_state_def xx_male_def y_markers_absent_def
        check_basic_deletion_AZFa check_basic_deletion_AZFb check_basic_deletion_AZFc
        discordant_eq split: prod.splits)

theorem classify_discordant_witness:
  "fst (check_control_markers panel_discordant) \<and>
   panel_discordant ''sY254'' = Some ''absent'' \<and>
   panel_discordant ''sY255'' = Some ''present'' \<and> ''absent'' \<noteq> ''present'' \<and>
   classify_y_chromosome_state panel_discordant =
     Inr ''METHODOLOGICAL_ERROR: sY254 and sY255 results discordant (both should have same status)''"
proof -
  have c: "fst (check_control_markers panel_discordant)"
    by (simp add: panel_discordant_def check_control_markers_def py_or_def)
  have a: "panel_discordant ''sY254'' = Some ''absent''"
    by (simp add: panel_discordant_def)
  have b: "panel_discordant ''sY255'' = Some ''present''"
    by (simp add: panel_discordant_def)
  have d: "''absent'' \<noteq> ''present''" by simp
  show ?thesis
    using c a b d classify_discordant [OF c a b d] by blast
qed

subsection \<open>The AZFc scenario\<close>

text \<open>
  C5 as stated fails: with sY254 and sY255 present no region is deleted, and the panel
  is classified as having no deletion.
\<close>

theorem classify_panel_all_present:
  "classify_y_chromosome_state panel_all_present = Inr ''NO_DELETION_DETECTED'' \<and>
   \<not> str_contains ''NO_DELETION_DETECTED'' ''COMPLETE_AZFC_DELETION_B2/B4''"
  by (simp add: panel_all_present_def classify_defs)

text \<open>
  C5, amended. For the panel ZFX/ZFY present, sY14 present, sY160 present, sY84, sY86,
  sY127 and sY134 present, and sY254 and sY255 absent, the classifier returns
  "COMPLETE_AZFC_DELETION_B2/B4 (TESE: approximately_50_percent)".
\<close>

theorem classify_panel_azfc:
  "classify_y_chromosome_state panel_azfc =
     Inr ''COMPLETE_AZFC_DELETION_B2/B4 (TESE: approximately_50_percent)'' \<and>
   str_contains ''COMPLETE_AZFC_DELETION_B2/B4 (TESE: approximately_50_percent)''
     ''COMPLETE_AZFC_DELETION_B2/B4'' \<and>
   str_contains ''COMPLETE_AZFC_DELETION_B2/B4 (TESE: approximately_50_percent)''
     ''approximately_50_percent''"
  by (simp add: panel_azfc_def classify_defs)

subsection \<open>Alias equivalence\<close>

lemma rename_alias_other [simp]:
  "k \<noteq> ''ZFX/ZFY'' \<Longrightarrow> k \<noteq> ''ZFX/Y'' \<Longrightarrow> rename_alias markers k = markers k"
  by (simp add: rename_alias_def)

lemma rename_alias_ZFY [simp]: "rename_alias markers ''ZFX/ZFY'' = None"
  by (simp add: rename_alias_def)

lemma rename_alias_ZY [simp]: "rename_alias markers ''ZFX/Y'' = markers ''ZFX/ZFY''"
  by (simp add: rename_alias_def)

lemma rename_getitem [simp]:
  "k \<noteq> ''ZFX/ZFY'' \<Longrightarrow> k \<noteq> ''ZFX/Y'' \<Longrightarrow>
   getitem (rename_alias markers) k = getitem markers k"
  by (simp add: getitem_def)

lemma rename_control:
  "markers ''ZFX/ZFY'' = Some ''present'' \<Longrightarrow>
   check_control_markers (rename_alias markers) = check_control_markers markers"
  by (simp add: check_control_markers_def py_or_def)

lemma rename_y_markers_absent:
  "y_markers_absent (rename_alias markers) = y_markers_absent markers"
proof -
  have "rename_alias markers k = markers k"
    if "k \<in> set [''sY84'', ''sY86'', ''sY127'', ''sY134'', ''sY254'', ''sY255'']" for k
    using that by auto
  then show ?thesis
    unfolding y_markers_absent_def by (simp cong: filter_cong list.pred_cong)
qed

lemma rename_xx_male:
  "markers ''ZFX/ZFY'' = Some ''present'' \<Longrightarrow> xx_male (rename_alias markers) = xx_male markers"
  by (simp add: xx_male_def get_or_def rename_y_markers_absent)

lemma rename_basic:
  "check_basic_deletion (rename_alias markers) ''AZFa'' = check_basic_deletion markers ''AZFa''"
  "check_basic_deletion (rename_alias markers) ''AZFb'' = check_basic_deletion markers ''AZFb''"
  "check_basic_deletion (rename_alias markers) ''AZFc'' = check_basic_deletion markers ''AZFc''"
  by (simp_all add: check_basic_deletion_AZFa check_basic_deletion_AZFb check_basic_deletion_AZFc)

lemma rename_discordant: "discordant (rename_alias markers) = discordant markers"
  by (simp add: discordant_eq)

lemma rename_azfbc: "check_azfbc_deletion (rename_alias markers) = check_azfbc_deletion markers"
  by (simp add: check_azfbc_deletion_def azfbc_loop_eq cong: if_cong)

lemma rename_extension:
  "check_extension_markers (rename_alias markers) ''AZFa'' = check_extension_markers markers ''AZFa''"
  "check_extension_markers (rename_alias markers) ''AZFb'' = check_extension_markers markers ''AZFb''"
  "check_extension_markers (rename_alias markers) ''AZFc'' = check_extension_markers markers ''AZFc''"
  by (simp_all add: extension_AZFa extension_AZFb extension_AZFc get_default_def Let_def cong: if_cong)

lemma rename_grgr: "check_grgr_deletion (rename_alias markers) = check_grgr_deletion markers"
  by (simp add: check_grgr_deletion_def)

lemma rename_missing:
  assumes "markers ''ZFX/ZFY'' = Some ''present''"
  shows "missing_loop (rename_alias markers) EXPECTED_PRESENT_MARKERS [] =
         missing_loop markers EXPECTED_PRESENT_MARKERS []"
proof -
  have "(rename_alias markers k \<noteq> None \<and> rename_alias markers k \<noteq> Some ''present'') =
        (markers k \<noteq> None \<and> markers k \<noteq> Some ''present'')"
    if "k \<in> set EXPECTED_PRESENT_MARKERS" for k
    using that assms by (auto simp: EXPECTED_PRESENT_MARKERS_def)
  then show ?thesis
    by (simp add: missing_loop_eq cong: filter_cong)
qed

lemma rename_single:
  "markers ''ZFX/ZFY'' = Some ''present'' \<Longrightarrow>
   classify_single (rename_alias markers) a b c = classify_single markers a b c"
  by (simp add: classify_single_def rename_extension rename_grgr rename_missing cong: if_cong)

lemma rename_patterns:
  "markers ''ZFX/ZFY'' = Some ''present'' \<Longrightarrow>
   classify_patterns (rename_alias markers) a b c = classify_patterns markers a b c"
  by (simp add: classify_patterns_def rename_azfbc rename_single cong: if_cong)

text \<open>
  C7. For a panel with ZFX/ZFY present and no ZFX/Y key, the panel with that key renamed
  to ZFX/Y gets the same classification.
\<close>

theorem alias_equivalence:
  "markers ''ZFX/ZFY'' = Some ''present'' \<Longrightarrow> markers ''ZFX/Y'' = None \<Longrightarrow>
   classify_y_chromosome_state (rename_alias markers) = classify_y_chromosome_state markers"
  by (simp add: classify_y_chromosome_state_def rename_control rename_xx_male rename_basic
        rename_discordant rename_patterns cong: if_cong)

theorem alias_equivalence_witness:
  "panel_azfa ''ZFX/ZFY'' = Some ''present'' \<and> panel_azfa ''ZFX/Y'' = None \<and>
   rename_alias panel_azfa ''ZFX/Y'' = Some ''present'' \<and>
   rename_alias panel_azfa ''ZFX/ZFY'' = None \<and>
   classify_y_chromosome_state (rename_alias panel_azfa) =
     Inr ''COMPLETE_AZFA_DELETION (TESE: virtually_impossible)''"
proof -
  have a: "panel_azfa ''ZFX/ZFY'' = Some ''present''" by (simp add: panel_azfa_def)
  have b: "panel_azfa ''ZFX/Y'' = None" by (simp add: panel_azfa_def)
  have c: "classify_y_chromosome_state panel_azfa =
     Inr ''COMPLETE_AZFA_DELETION (TESE: virtually_impossible)''"
    by (simp add: panel_azfa_def classify_defs)
  show ?thesis
    using a b c alias_equivalence [OF a b] by simp
qed

subsection \<open>The combined AZFbc check\<close>

text \<open>
  C8. When the basic deletion check is true for AZFb and for AZFc, the combined AZFbc
  check confirms, and the classifier's AZFbc branch (AZFb and AZFc deleted, AZFa not)
  returns its message: it never falls through to the later branches.
\<close>

theorem azfbc_confirms:
  "check_basic_deletion markers ''AZFb'' = Inr True \<Longrightarrow>
   check_basic_deletion markers ''AZFc'' = Inr True \<Longrightarrow>
   \<exists>msg. check_azfbc_deletion markers = Inr (True, msg) \<and>
         classify_patterns markers False True True = Inr msg"
  using check_azfbc_deletion_total [of markers]
  by (auto simp: check_basic_deletion_AZFb check_basic_deletion_AZFc classify_patterns_def)

theorem azfbc_confirms_witness:
  "check_basic_deletion panel_azfbc ''AZFb'' = Inr True \<and>
   check_basic_deletion panel_azfbc ''AZFc'' = Inr True \<and>
   (\<exists>msg. check_azfbc_deletion panel_azfbc = Inr (True, msg) \<and>
          classify_patterns panel_azfbc False True True = Inr msg)"
proof -
  have b: "check_basic_deletion panel_azfbc ''AZFb'' = Inr True"
    by (simp add: panel_azfbc_def check_basic_deletion_AZFb)
  have c: "check_basic_deletion panel_azfbc ''AZFc'' = Inr True"
    by (simp add: panel_azfbc_def check_basic_deletion_AZFc)
  show ?thesis
    using b c azfbc_confirms [OF b c] by blast
qed

end
